theory Spec2Isabelle
  imports Complex_Main
begin

section \<open>Data model\<close>

text \<open>
  The interview assistant keeps its candidates in a Redux slice
  (\<^verbatim>\<open>candidatesSlice\<close>) and drives one interview from the React component
  \<^verbatim>\<open>InterviewChat\<close>, which talks to the provider through \<^verbatim>\<open>PerplexityAPI\<close>.

  JavaScript values are modelled as follows. A number that is only ever an index or a
  count is a \<open>nat\<close>; seconds are \<open>int\<close>; a per-question score is an exact
  rational (the provider may answer \<^verbatim>\<open>7.5\<close>), so rounding errors of IEEE doubles are
  not part of the model. A string is a list of 8-bit characters. A property that may be
  \<^verbatim>\<open>undefined\<close> or \<^verbatim>\<open>null\<close> is an \<open>option\<close>.
\<close>

datatype status = not_started | in_progress | completed

text \<open>A question as the question bank and the provider adapter produce it,
  \<^verbatim>\<open>{question, difficulty, timeLimit}\<close>, and as a session stores it, with the property
  \<^verbatim>\<open>id\<close> (\<open>qid\<close>) added. A \<open>timeLimit\<close> of 0 stands for every falsy value.\<close>

record QuestionItem =
  question :: string
  difficulty :: string
  timeLimit :: int

record Question = QuestionItem +
  qid :: string

text \<open>An answer: \<^verbatim>\<open>{questionId, text, score, feedback, timestamp}\<close>, with
  \<open>answerText\<close> for \<^verbatim>\<open>text\<close> and \<open>ascore\<close> for \<^verbatim>\<open>score\<close>. A score may be
  missing (the handler of \<^verbatim>\<open>submitAnswer\<close> stores none) or \<^verbatim>\<open>null\<close>.\<close>

record Answer =
  questionId :: string
  answerText :: string
  ascore :: "rat option"
  feedback :: "string option"
  timestamp :: string

text \<open>A candidate session. \<open>cid\<close> is the property \<^verbatim>\<open>id\<close>, \<open>skills\<close> is
  \<^verbatim>\<open>resumeData?.skills\<close>. The properties the orchestrator never reads (email, phone,
  the resume file, the creation time) are left out.\<close>

record Candidate =
  cid :: string
  name :: string
  skills :: "string list option"
  interviewStatus :: status
  answers :: "Answer list"
  questions :: "Question list"
  currentQuestionIndex :: nat
  timeLeft :: int
  isPaused :: bool
  score :: "int option"
  summary :: string
  completedAt :: "string option"

text \<open>The payload of \<^verbatim>\<open>updateCandidate\<close> is any object with an \<^verbatim>\<open>id\<close>: every other
  property may be absent (\<open>None\<close>). \<^verbatim>\<open>score\<close> and \<^verbatim>\<open>completedAt\<close> may be present
  and \<^verbatim>\<open>null\<close> (\<open>Some None\<close>).\<close>

record Payload =
  p_id :: string
  p_name :: "string option"
  p_skills :: "string list option option"
  p_interviewStatus :: "status option"
  p_answers :: "Answer list option"
  p_questions :: "Question list option"
  p_currentQuestionIndex :: "nat option"
  p_timeLeft :: "int option"
  p_isPaused :: "bool option"
  p_score :: "int option option"
  p_summary :: "string option"
  p_completedAt :: "string option option"

text \<open>The slice state.\<close>

record Store =
  candidates :: "Candidate list"
  currentCandidateId :: "string option"
  activeTab :: string
  viewMode :: string

section \<open>The candidates slice\<close>

text \<open>\<^verbatim>\<open>Array.prototype.findIndex\<close>: the first index whose element satisfies the
  predicate; \<open>None\<close> is JavaScript's \<^verbatim>\<open>-1\<close>.\<close>

fun findIndex :: "('a \<Rightarrow> bool) \<Rightarrow> 'a list \<Rightarrow> nat option" where
  "findIndex P [] = None"
| "findIndex P (x # xs) = (if P x then Some 0 else map_option Suc (findIndex P xs))"

text \<open>\<^verbatim>\<open>incoming.f !== undefined ? incoming.f : current.f\<close>, which for a property of the
  spread \<^verbatim>\<open>{...current, ...incoming}\<close> is the same choice.\<close>

definition orCurrent :: "'a option \<Rightarrow> 'a \<Rightarrow> 'a" where
  "orCurrent inc cur = (case inc of None \<Rightarrow> cur | Some v \<Rightarrow> v)"

text \<open>The object literal that \<^verbatim>\<open>updateCandidate\<close> stores at the found index.\<close>

definition mergeCandidate :: "Candidate \<Rightarrow> Payload \<Rightarrow> Candidate" where
  "mergeCandidate current incoming =
     \<lparr> cid = p_id incoming,
       name = orCurrent (p_name incoming) (name current),
       skills = orCurrent (p_skills incoming) (skills current),
       interviewStatus = orCurrent (p_interviewStatus incoming) (interviewStatus current),
       answers = orCurrent (p_answers incoming) (answers current),
       questions = orCurrent (p_questions incoming) (questions current),
       currentQuestionIndex =
         orCurrent (p_currentQuestionIndex incoming) (currentQuestionIndex current),
       timeLeft = orCurrent (p_timeLeft incoming) (timeLeft current),
       isPaused = orCurrent (p_isPaused incoming) (isPaused current),
       score = orCurrent (p_score incoming) (score current),
       summary = orCurrent (p_summary incoming) (summary current),
       completedAt = orCurrent (p_completedAt incoming) (completedAt current) \<rparr>"

text \<open>The reducer \<^verbatim>\<open>updateCandidate\<close>: an early return when no candidate has the
  payload's id, otherwise the entry at the found index is replaced.\<close>

definition updateCandidate :: "Store \<Rightarrow> Payload \<Rightarrow> Store" where
  "updateCandidate state incoming =
     (case findIndex (\<lambda>c. cid c = p_id incoming) (candidates state) of
        None \<Rightarrow> state
      | Some index \<Rightarrow>
          state\<lparr>candidates :=
            (candidates state)[index := mergeCandidate (candidates state ! index) incoming]\<rparr>)"

text \<open>The other reducers of the slice.\<close>

definition addCandidate :: "Store \<Rightarrow> Candidate \<Rightarrow> Store" where
  "addCandidate state c = state\<lparr>candidates := candidates state @ [c]\<rparr>"

definition setCurrentCandidateId :: "Store \<Rightarrow> string option \<Rightarrow> Store" where
  "setCurrentCandidateId state i = state\<lparr>currentCandidateId := i\<rparr>"

definition resetInterview :: "Store \<Rightarrow> string \<Rightarrow> Store" where
  "resetInterview state candidateId =
     (case findIndex (\<lambda>c. cid c = candidateId) (candidates state) of
        None \<Rightarrow> state
      | Some candidateIndex \<Rightarrow>
          state\<lparr>candidates := (candidates state)[candidateIndex :=
            (candidates state ! candidateIndex)
              \<lparr> interviewStatus := not_started, answers := [], questions := [],
                score := None, summary := [], timeLeft := 0, isPaused := False,
                currentQuestionIndex := 0, completedAt := None \<rparr>]\<rparr>)"

text \<open>\<^verbatim>\<open>candidates.find(c => c.id === currentCandidateId)\<close>, the active candidate of
  the component.\<close>

definition activeCandidate :: "Store \<Rightarrow> Candidate option" where
  "activeCandidate state =
     (case currentCandidateId state of
        None \<Rightarrow> None
      | Some i \<Rightarrow> find (\<lambda>c. cid c = i) (candidates state))"

text \<open>\<^verbatim>\<open>{...activeCandidate}\<close>: a payload that carries every property of a
  candidate. The component builds each of its payloads from such a spread.\<close>

definition spread :: "Candidate \<Rightarrow> Payload" where
  "spread c =
     \<lparr> p_id = cid c, p_name = Some (name c), p_skills = Some (skills c),
       p_interviewStatus = Some (interviewStatus c), p_answers = Some (answers c),
       p_questions = Some (questions c),
       p_currentQuestionIndex = Some (currentQuestionIndex c),
       p_timeLeft = Some (timeLeft c), p_isPaused = Some (isPaused c),
       p_score = Some (score c), p_summary = Some (summary c),
       p_completedAt = Some (completedAt c) \<rparr>"

text \<open>A payload with an id and nothing else.\<close>

definition idOnly :: "string \<Rightarrow> Payload" where
  "idOnly i =
     \<lparr> p_id = i, p_name = None, p_skills = None, p_interviewStatus = None,
       p_answers = None, p_questions = None, p_currentQuestionIndex = None,
       p_timeLeft = None, p_isPaused = None, p_score = None, p_summary = None,
       p_completedAt = None \<rparr>"

text \<open>The candidate that \<^verbatim>\<open>onFinish\<close> of the interviewee tab adds to the slice when
  the details form is submitted.\<close>

definition newCandidate :: "string \<Rightarrow> string \<Rightarrow> Candidate" where
  "newCandidate i n =
     \<lparr> cid = i, name = n, skills = None, interviewStatus = not_started, answers = [],
       questions = [], currentQuestionIndex = 0, timeLeft = 0, isPaused = False,
       score = None, summary = [], completedAt = None \<rparr>"

text \<open>The initial slice state with two candidates added, the second one selected.\<close>

definition twoCandidates :: Store where
  "twoCandidates =
     \<lparr> candidates = [newCandidate ''1'' ''Ada'', newCandidate ''2'' ''Grace''],
       currentCandidateId = Some ''2'', activeTab = ''interviewee'', viewMode = ''tabs'' \<rparr>"

section \<open>Strings\<close>

text \<open>The string operations of JavaScript that the program uses, on code units below
  256. White space is what \<^verbatim>\<open>trim\<close> and \<^verbatim>\<open>\s\<close> take in that range: tab, line feed,
  vertical tab, form feed, carriage return, space and the no-break space.\<close>

definition isSpace :: "char \<Rightarrow> bool" where
  "isSpace c \<longleftrightarrow> c \<in> {CHR 0x09, CHR 0x0A, CHR 0x0B, CHR 0x0C, CHR 0x0D, CHR 0x20, CHR 0xA0}"

definition isDigit :: "char \<Rightarrow> bool" where
  "isDigit c \<longleftrightarrow> c \<in> set ''0123456789''"

text \<open>The characters that \<^verbatim>\<open>.\<close> of a regular expression does not match.\<close>

definition isLineTerminator :: "char \<Rightarrow> bool" where
  "isLineTerminator c \<longleftrightarrow> c = CHR 0x0A \<or> c = CHR 0x0D"

definition trim :: "string \<Rightarrow> string" where
  "trim s = rev (dropWhile isSpace (rev (dropWhile isSpace s)))"

fun startsWith :: "string \<Rightarrow> string \<Rightarrow> bool" where
  "startsWith s [] = True"
| "startsWith [] (p # ps) = False"
| "startsWith (c # cs) (p # ps) = (c = p \<and> startsWith cs ps)"

text \<open>\<^verbatim>\<open>s.includes(k)\<close>: \<open>k\<close> occurs in \<open>s\<close> as a contiguous substring.\<close>

fun includes_str :: "string \<Rightarrow> string \<Rightarrow> bool" where
  "includes_str [] k = (k = [])"
| "includes_str (c # cs) k = (startsWith (c # cs) k \<or> includes_str cs k)"

text \<open>\<^verbatim>\<open>toLowerCase\<close>: the letters A to Z and the capital letters of Latin-1 move
  down by 32; every other code unit below 256 stays.\<close>

definition lowerChar :: "char \<Rightarrow> char" where
  "lowerChar c =
     (let n = (of_char c :: nat)
      in if (65 \<le> n \<and> n \<le> 90) \<or> (192 \<le> n \<and> n \<le> 222 \<and> n \<noteq> 215)
         then char_of (n + 32) else c)"

definition toLowerCase :: "string \<Rightarrow> string" where
  "toLowerCase s = map lowerChar s"

text \<open>\<^verbatim>\<open>s.split('\n')\<close>.\<close>

fun splitLines :: "string \<Rightarrow> string list" where
  "splitLines [] = [[]]"
| "splitLines (c # cs) =
     (if c = CHR 0x0A then [] # splitLines cs
      else (case splitLines cs of [] \<Rightarrow> [[c]] | line # rest \<Rightarrow> (c # line) # rest))"

text \<open>\<^verbatim>\<open>xs.join(sep)\<close>.\<close>

fun join :: "string \<Rightarrow> string list \<Rightarrow> string" where
  "join sep [] = []"
| "join sep [x] = x"
| "join sep (x # y # ys) = x @ sep @ join sep (y # ys)"

text \<open>A natural number in decimal, as template literals print it.\<close>

definition digit :: "nat \<Rightarrow> char" where
  "digit d = char_of (48 + d)"

fun showNat :: "nat \<Rightarrow> string" where
  "showNat n = (if n < 10 then [digit n] else showNat (n div 10) @ [digit (n mod 10)])"

declare showNat.simps [simp del]

text \<open>\<^verbatim>\<open>Math.round\<close>: the nearest integer, a half rounding up.\<close>

definition Math_round :: "rat \<Rightarrow> int" where
  "Math_round x = \<lfloor>x + 1 / 2\<rfloor>"

text \<open>\<^verbatim>\<open>x.toFixed(1)\<close>: the sign, then the magnitude rounded to tenths, a half
  rounding up.\<close>

definition toFixed1 :: "rat \<Rightarrow> string" where
  "toFixed1 x =
     (let n = nat (Math_round (\<bar>x\<bar> * 10))
      in (if x < 0 then ''-'' else []) @ showNat (n div 10) @ ''.'' @ [digit (n mod 10)])"

section \<open>The provider adapter\<close>

text \<open>
  What the network answers to a \<^verbatim>\<open>POST /chat/completions\<close>: \<open>Failed\<close> is a
  rejected request (a time-out, a status outside 2xx, a body without the expected
  shape); \<open>Response st cs\<close> is a fulfilled one with status \<open>st\<close> and the message
  contents \<open>cs\<close> of \<^verbatim>\<open>data.choices\<close>. A request is identified by the model it names and
  by the values its prompt is built from. The network is a parameter of every adapter
  function, and each function returns the requests it has issued next to its result.
\<close>

datatype response = Failed | Response nat "string list"

datatype request =
    Hello
  | AskQuestions string string nat
  | AskEvaluation string string string
  | AskSummary Candidate string

type_synonym network = "string \<Rightarrow> request \<Rightarrow> response"

type_synonym requests = "(string \<times> request) list"

text \<open>The test \<^verbatim>\<open>response.status === 200 && response.data && response.data.choices &&
  response.data.choices.length > 0\<close>, which every adapter function applies.\<close>

fun usable :: "response \<Rightarrow> bool" where
  "usable Failed = False"
| "usable (Response st cs) = (st = 200 \<and> cs \<noteq> [])"

fun content :: "response \<Rightarrow> string" where
  "content Failed = []"
| "content (Response st cs) = (case cs of [] \<Rightarrow> [] | c # _ \<Rightarrow> c)"

text \<open>The models, in order of preference; the same list in all four functions.\<close>

definition models :: "string list" where
  "models = [''llama-3.1-sonar-small-128k-online'', ''llama-3.1-sonar-large-128k-online'',
     ''sonar-small-online'', ''sonar-medium-online'', ''sonar'']"

definition isApiKeyAvailable :: "string \<Rightarrow> bool" where
  "isApiKeyAvailable key =
     (if key = [] then False
      else if key = ''undefined'' then False
      else let trimmedKey = trim key
        in if trimmedKey = [] then False
           else if trimmedKey = ''your_perplexity_api_key_here'' then False
           else if \<not> startsWith trimmedKey ''pplx-'' then False
           else if length trimmedKey < 30 then False
           else True)"

definition checkApiKey :: "string \<Rightarrow> bool" where
  "checkApiKey key =
     (if key = [] \<or> key = ''undefined'' \<or> trim key = [] then False
      else if \<not> startsWith (trim key) ''pplx-'' then False
      else True)"

text \<open>\<^verbatim>\<open>testConnection\<close>: the first model that answers usably makes the test succeed.\<close>

fun testModels :: "network \<Rightarrow> string list \<Rightarrow> bool \<times> requests" where
  "testModels net [] = (False, [])"
| "testModels net (model # rest) =
     (if usable (net model Hello) then (True, [(model, Hello)])
      else (case testModels net rest of (ok, reqs) \<Rightarrow> (ok, (model, Hello) # reqs)))"

definition testConnection :: "string \<Rightarrow> network \<Rightarrow> bool \<times> requests" where
  "testConnection key net = (if \<not> checkApiKey key then (False, []) else testModels net models)"

subsection \<open>generateQuestions\<close>

text \<open>\<^verbatim>\<open>difficulty === 'easy' ? 20 : difficulty === 'medium' ? 60 : 120\<close>.\<close>

definition limitFor :: "string \<Rightarrow> int" where
  "limitFor d = (if d = ''easy'' then 20 else if d = ''medium'' then 60 else 120)"

definition item :: "string \<Rightarrow> string \<Rightarrow> QuestionItem" where
  "item d q = \<lparr> question = q, difficulty = d, timeLimit = limitFor d \<rparr>"

text \<open>
  The first capture of \<^verbatim>\<open>/^\d+\.\s*(.+)$/\<close> on a line, trimmed, when the line matches and
  the trimmed capture is longer than 10: digits, a dot, white space, then the rest of the
  line, which must not hold a line terminator (the dot of the pattern does not match one
  and \<^verbatim>\<open>$\<close> is the end of the line). When only white space follows the dot the capture is
  white space and fails the length test.
\<close>

definition numberedQuestion :: "string \<Rightarrow> string option" where
  "numberedQuestion line =
     (if takeWhile isDigit line = [] then None
      else case dropWhile isDigit line of
          [] \<Rightarrow> None
        | c # rest \<Rightarrow>
            if c \<noteq> CHR ''.'' then None
            else let captured = dropWhile isSpace rest; questionText = trim captured
              in if captured = [] \<or> list_ex isLineTerminator captured then None
                 else if length questionText > 10 then Some questionText else None)"

text \<open>The second loop: any line longer than 20 with a question mark, until \<open>count\<close>
  questions are found.\<close>

fun meaningfulLines :: "string \<Rightarrow> nat \<Rightarrow> string list \<Rightarrow> QuestionItem list \<Rightarrow> QuestionItem list"
  where
  "meaningfulLines d count [] found = found"
| "meaningfulLines d count (line # rest) found =
     (let trimmed = trim line
      in if length trimmed > 20 \<and> CHR ''?'' \<in> set trimmed
         then (if length found + 1 \<ge> count then found @ [item d trimmed]
               else meaningfulLines d count rest (found @ [item d trimmed]))
         else meaningfulLines d count rest found)"

definition parseQuestions :: "string \<Rightarrow> nat \<Rightarrow> string \<Rightarrow> QuestionItem list" where
  "parseQuestions d count text =
     (let lines = filter (\<lambda>line. trim line \<noteq> []) (splitLines text);
          numbered = map (item d) (List.map_filter numberedQuestion lines)
      in if numbered = [] then meaningfulLines d count lines [] else numbered)"

text \<open>The questions returned when every model has failed, by difficulty;
  \<^verbatim>\<open>fallbackQuestions[difficultyKey] || fallbackQuestions['medium']\<close>.\<close>

definition fallbackQuestions :: "string \<Rightarrow> string list" where
  "fallbackQuestions difficultyKey =
     (if difficultyKey = ''easy'' then
        [''What is the difference between let, const, and var in JavaScript?'',
         ''Explain what a function is and how to create one.'',
         ''What is the purpose of HTML and CSS?'',
         ''Describe what an API is in simple terms.'']
      else if difficultyKey = ''hard'' then
        [''Design a scalable architecture for a high-traffic web application.'',
         ''Explain how you would implement real-time features in a web app.'',
         ''Describe your approach to handling security in a full-stack application.'',
         ''How would you design a system to handle millions of concurrent users?'']
      else
        [''How do you handle asynchronous operations in JavaScript?'',
         ''Explain the concept of state management in React.'',
         ''What are the differences between SQL and NoSQL databases?'',
         ''Describe how you would optimize a slow-loading web page.''])"

text \<open>The loop over the models. \<open>shuffle\<close> is the random order that
  \<^verbatim>\<open>sort(() => 0.5 - Math.random())\<close> produces, a parameter. A reply is accepted as soon
  as it yields at least one question, and is cut to \<open>count\<close>.\<close>

fun askModels ::
  "network \<Rightarrow> (string list \<Rightarrow> string list) \<Rightarrow> string \<Rightarrow> string \<Rightarrow> nat \<Rightarrow> string list \<Rightarrow>
     QuestionItem list \<times> requests" where
  "askModels net shuffle position d count [] =
     (map (item d) (take count (shuffle (fallbackQuestions (toLowerCase d)))), [])"
| "askModels net shuffle position d count (model # rest) =
     (let r = net model (AskQuestions position d count);
          found = parseQuestions d count (trim (content r))
      in if usable r \<and> found \<noteq> [] then (take count found, [(model, AskQuestions position d count)])
         else (case askModels net shuffle position d count rest of
                 (qs, reqs) \<Rightarrow> (qs, (model, AskQuestions position d count) # reqs)))"

definition generateQuestions ::
  "string \<Rightarrow> network \<Rightarrow> (string list \<Rightarrow> string list) \<Rightarrow> string \<Rightarrow> string \<Rightarrow> nat \<Rightarrow>
     QuestionItem list \<times> requests" where
  "generateQuestions key net shuffle position d count =
     (if \<not> checkApiKey key then ([], [])
      else askModels net shuffle position d count models)"

subsection \<open>evaluateAnswer\<close>

record Evaluation =
  e_score :: rat
  e_feedback :: string

definition technicalKeywords :: "string list" where
  "technicalKeywords = [''function'', ''variable'', ''scope'', ''closure'', ''async'',
     ''promise'', ''component'', ''state'', ''props'', ''api'', ''database'', ''server'',
     ''client'']"

text \<open>The basic evaluation after the loop, statement by statement.\<close>

definition basicEvaluation :: "string \<Rightarrow> Evaluation" where
  "basicEvaluation answer =
     (let score0 = (3 :: nat);
          answerLower = toLowerCase answer;
          score1 = (if length answer > 50 then score0 + 1 else score0);
          score2 = (if length answer > 100 then score1 + 1 else score1);
          foundKeywords = filter (\<lambda>keyword. includes_str answerLower keyword) technicalKeywords;
          score3 = score2 + min (length foundKeywords) 3;
          score = min 10 score3
      in \<lparr> e_score = of_nat score,
           e_feedback = ''Basic evaluation: Answer shows '' @
             (if score \<ge> 7 then ''good'' else if score \<ge> 5 then ''moderate'' else ''limited'') @
             '' technical understanding. '' @
             (if length foundKeywords > 0
              then ''Mentioned relevant concepts: '' @ join '', '' (take 3 foundKeywords) @ ''.''
              else []) @
             '' Consider providing more detailed explanations.'' \<rparr>)"

text \<open>The loop over the models. How the text of a usable reply is read (two regular
  expressions, a score clamped to 0..10) is the parameter \<open>parseReply\<close>.\<close>

fun evaluateModels ::
  "network \<Rightarrow> (string \<Rightarrow> Evaluation) \<Rightarrow> string \<Rightarrow> string \<Rightarrow> string \<Rightarrow> string list \<Rightarrow>
     Evaluation \<times> requests" where
  "evaluateModels net parseReply q answer position [] = (basicEvaluation answer, [])"
| "evaluateModels net parseReply q answer position (model # rest) =
     (let r = net model (AskEvaluation q answer position)
      in if usable r then (parseReply (trim (content r)), [(model, AskEvaluation q answer position)])
         else (case evaluateModels net parseReply q answer position rest of
                 (evaluation, reqs) \<Rightarrow> (evaluation, (model, AskEvaluation q answer position) # reqs)))"

definition evaluateAnswer ::
  "string \<Rightarrow> network \<Rightarrow> (string \<Rightarrow> Evaluation) \<Rightarrow> string \<Rightarrow> string \<Rightarrow> string \<Rightarrow>
     Evaluation \<times> requests" where
  "evaluateAnswer key net parseReply q answer position =
     (if \<not> checkApiKey key
      then (\<lparr> e_score = 5, e_feedback = ''Using default evaluation due to missing API key.'' \<rparr>, [])
      else evaluateModels net parseReply q answer position models)"

subsection \<open>generateSummary\<close>

text \<open>\<^verbatim>\<open>a.score || 0\<close>.\<close>

definition scoreOr0 :: "Answer \<Rightarrow> rat" where
  "scoreOr0 a = (case ascore a of None \<Rightarrow> 0 | Some v \<Rightarrow> v)"

definition avgScore :: "Candidate \<Rightarrow> rat" where
  "avgScore candidateData =
     (if length (answers candidateData) > 0
      then foldl (\<lambda>sum a. sum + scoreOr0 a) 0 (answers candidateData) /
             of_nat (length (answers candidateData))
      else 0)"

text \<open>The two conditional expressions of the summary template.\<close>

definition performanceOverview :: "rat \<Rightarrow> string" where
  "performanceOverview avg =
     (if avg \<ge> 7 then ''Strong performance with good technical understanding.''
      else if avg \<ge> 5 then ''Moderate performance with room for improvement.''
      else ''Below average performance, significant gaps in technical knowledge.'')"

definition recommendation :: "rat \<Rightarrow> string" where
  "recommendation avg =
     (if avg \<ge> 7 then ''Consider for next round''
      else if avg \<ge> 5 then ''Requires further evaluation''
      else ''Not recommended at this time'')"

definition defaultSummary :: "Candidate \<Rightarrow> string" where
  "defaultSummary candidateData =
     ''Interview Summary for '' @
     (if name candidateData = [] then ''Candidate'' else name candidateData) @
     [CHR 0x0A, CHR 0x0A] @
     ''Technical Skills Assessment: The candidate completed '' @
     showNat (length (answers candidateData)) @
     '' out of 6 interview questions with an average score of '' @
     toFixed1 (avgScore candidateData) @ ''/10.'' @
     [CHR 0x0A, CHR 0x0A] @
     ''Performance Overview: '' @ performanceOverview (avgScore candidateData) @
     [CHR 0x0A, CHR 0x0A] @
     ''Areas for Improvement: Based on the interview responses, the candidate would benefit from additional practice and study in the technical areas covered.'' @
     [CHR 0x0A, CHR 0x0A] @
     ''Recommendation: '' @ recommendation (avgScore candidateData) @
     '' based on current technical assessment.'' @
     [CHR 0x0A, CHR 0x0A] @
     ''Note: This is an automated summary. Manual review recommended for final hiring decisions.''"

text \<open>The loop over the models: a usable reply is accepted when its trimmed text is
  longer than 50.\<close>

fun summaryModels :: "network \<Rightarrow> Candidate \<Rightarrow> string \<Rightarrow> string list \<Rightarrow> string \<times> requests" where
  "summaryModels net candidateData position [] = (defaultSummary candidateData, [])"
| "summaryModels net candidateData position (model # rest) =
     (let r = net model (AskSummary candidateData position)
      in if usable r \<and> length (trim (content r)) > 50
         then (trim (content r), [(model, AskSummary candidateData position)])
         else (case summaryModels net candidateData position rest of
                 (s, reqs) \<Rightarrow> (s, (model, AskSummary candidateData position) # reqs)))"

definition generateSummary :: "string \<Rightarrow> network \<Rightarrow> Candidate \<Rightarrow> string \<Rightarrow> string \<times> requests" where
  "generateSummary key net candidateData position =
     (if \<not> checkApiKey key then (''Using default summary due to missing API key.'', [])
      else summaryModels net candidateData position models)"

section \<open>The interview component\<close>

subsection \<open>Question bank and helpers\<close>

definition defaultQuestions :: "QuestionItem list" where
  "defaultQuestions =
     [\<lparr> question = ''What is the difference between let, const, and var in JavaScript?'',
        difficulty = ''Easy'', timeLimit = 20 \<rparr>,
      \<lparr> question = ''Explain how React's virtual DOM works and why it's beneficial.'',
        difficulty = ''Easy'', timeLimit = 20 \<rparr>,
      \<lparr> question = ''Describe the concept of closures in JavaScript with an example.'',
        difficulty = ''Medium'', timeLimit = 60 \<rparr>,
      \<lparr> question = ''How would you implement a debounce function in JavaScript?'',
        difficulty = ''Medium'', timeLimit = 60 \<rparr>,
      \<lparr> question = ''Explain the concept of server-side rendering in React and its advantages.'',
        difficulty = ''Hard'', timeLimit = 120 \<rparr>,
      \<lparr> question = ''Design a scalable state management solution for a complex React application.'',
        difficulty = ''Hard'', timeLimit = 120 \<rparr>]"

definition getTimeLimit :: "nat \<Rightarrow> int" where
  "getTimeLimit index = (if index < 2 then 20 else if index < 4 then 60 else 120)"

definition getDifficulty :: "nat \<Rightarrow> string" where
  "getDifficulty index = (if index < 2 then ''Easy'' else if index < 4 then ''Medium'' else ''Hard'')"

text \<open>\<^verbatim>\<open>a || b\<close> on numbers.\<close>

definition orElse :: "int \<Rightarrow> int \<Rightarrow> int" where
  "orElse a b = (if a = 0 then b else a)"

text \<open>\<^verbatim>\<open>resumeData?.skills?.join(', ') || 'Full Stack Developer (React/Node.js)'\<close>.\<close>

definition roleInfo :: "Candidate \<Rightarrow> string" where
  "roleInfo c =
     (case skills c of
        None \<Rightarrow> ''Full Stack Developer (React/Node.js)''
      | Some ss \<Rightarrow>
          if join '', '' ss = [] then ''Full Stack Developer (React/Node.js)''
          else join '', '' ss)"

text \<open>What the component is given from outside: the configured key, the network, the
  random order of the adapter's fallback questions, which of the three races against the
  30 second promise are lost, the reading of an evaluation reply, and the clock
  (\<^verbatim>\<open>Date.now()\<close> and \<^verbatim>\<open>new Date().toISOString()\<close>).\<close>

record Env =
  apiKey :: string
  net :: network
  shuffle :: "string list \<Rightarrow> string list"
  expired :: "nat \<Rightarrow> bool"
  parseReply :: "string \<Rightarrow> Evaluation"
  now :: nat
  nowISO :: string

text \<open>A stored question without its id.\<close>

definition itemOf :: "Question \<Rightarrow> QuestionItem" where
  "itemOf q = \<lparr> question = question q, difficulty = difficulty q, timeLimit = timeLimit q \<rparr>"

subsection \<open>generateQuestionsBatch\<close>

text \<open>The two \<^verbatim>\<open>map\<close> calls that give the questions their ids.\<close>

definition defaultBatch :: "nat \<Rightarrow> Question list" where
  "defaultBatch t =
     map (\<lambda>(idx, q). \<lparr> question = question q, difficulty = difficulty q,
                       timeLimit = orElse (timeLimit q) (getTimeLimit idx),
                       qid = ''default-'' @ showNat t @ ''-'' @ showNat idx \<rparr>)
       (enumerate 0 defaultQuestions)"

definition generatedBatch :: "nat \<Rightarrow> QuestionItem list \<Rightarrow> Question list" where
  "generatedBatch t allQuestions =
     map (\<lambda>(idx, q). \<lparr> question = question q,
                       difficulty = (if difficulty q = [] then getDifficulty idx else difficulty q),
                       timeLimit = orElse (timeLimit q) (getTimeLimit idx),
                       qid = ''generated-'' @ showNat t @ ''-'' @ showNat idx \<rparr>)
       (enumerate 0 allQuestions)"

text \<open>
  \<^verbatim>\<open>generateQuestionsBatch\<close>. Without an available key nothing is asked. Otherwise the
  connection is tested and, when the test succeeds, two easy, two medium and two hard
  questions are asked for, each call racing against the time-out promise; a lost race
  raises into the inner handler, which leaves \<^verbatim>\<open>allQuestions\<close> empty. An empty
  \<^verbatim>\<open>allQuestions\<close> gives the question bank. No statement raises into the outer handler.
\<close>

definition generateQuestionsBatch :: "Env \<Rightarrow> Candidate \<Rightarrow> Question list \<times> requests" where
  "generateQuestionsBatch env c =
     (if isApiKeyAvailable (apiKey env) then
        (let connectionTest = testConnection (apiKey env) (net env)
         in if fst connectionTest then
              (let easy = generateQuestions (apiKey env) (net env) (shuffle env) (roleInfo c) ''easy'' 2;
                   medium = generateQuestions (apiKey env) (net env) (shuffle env) (roleInfo c) ''medium'' 2;
                   hard = generateQuestions (apiKey env) (net env) (shuffle env) (roleInfo c) ''hard'' 2
               in if expired env 0 then (defaultBatch (now env), snd connectionTest @ snd easy)
                  else if expired env 1
                    then (defaultBatch (now env), snd connectionTest @ snd easy @ snd medium)
                  else if expired env 2
                    then (defaultBatch (now env),
                          snd connectionTest @ snd easy @ snd medium @ snd hard)
                  else
                    (let allQuestions = fst easy @ fst medium @ fst hard
                     in (if length allQuestions = 0 then defaultBatch (now env)
                         else generatedBatch (now env) allQuestions,
                         snd connectionTest @ snd easy @ snd medium @ snd hard)))
            else (defaultBatch (now env), snd connectionTest))
      else (defaultBatch (now env), []))"

subsection \<open>submitAnswer and finishInterview\<close>

text \<open>
  \<^verbatim>\<open>submitAnswer\<close> on the candidate and the answer text of the render that created the
  callback. \<open>None\<close> is one of its three early returns; otherwise the result is the payload
  it dispatches. On values of these types no statement of its \<^verbatim>\<open>try\<close> block raises and
  \<^verbatim>\<open>evaluateAnswer\<close> does not reject, so the handlers are not reached.
\<close>

definition submitAnswer :: "Env \<Rightarrow> Candidate \<Rightarrow> string \<Rightarrow> (Payload \<times> requests) option" where
  "submitAnswer env c answer =
     (if currentQuestionIndex c \<ge> 6 then None
      else if questions c = [] then None
      else if currentQuestionIndex c \<ge> length (questions c) then None
      else
        (let currentQuestion = questions c ! currentQuestionIndex c;
             answerToSubmit = (if answer = [] then ''No answer provided (time ran out)'' else answer);
             evaluation = evaluateAnswer (apiKey env) (net env) (parseReply env)
                            (question currentQuestion) answerToSubmit (roleInfo c);
             updatedAnswers = answers c @
               [\<lparr> questionId = qid currentQuestion, answerText = answerToSubmit,
                   ascore = Some (e_score (fst evaluation)),
                   feedback = Some (e_feedback (fst evaluation)),
                   timestamp = nowISO env \<rparr>];
             nextIndex = currentQuestionIndex c + 1;
             nextTimeLeft =
               (if nextIndex < length (questions c)
                then orElse (timeLimit (questions c ! nextIndex)) (getTimeLimit nextIndex)
                else 0)
         in Some ((spread c)\<lparr> p_answers := Some updatedAnswers,
                             p_currentQuestionIndex := Some nextIndex,
                             p_timeLeft := Some nextTimeLeft,
                             p_isPaused := Some False \<rparr>,
                  snd evaluation)))"

text \<open>The final score of \<^verbatim>\<open>finishInterview\<close>, out of 100.\<close>

definition finalScore :: "Candidate \<Rightarrow> int" where
  "finalScore c =
     (let perQuestionScores = map scoreOr0 (answers c);
          totalOutOfTen = foldl (\<lambda>s n. s + n) 0 perQuestionScores;
          averageOutOfTen = totalOutOfTen / 6
      in max 0 (min 100 (Math_round (averageOutOfTen * 10))))"

text \<open>\<^verbatim>\<open>finishInterview\<close>: the payload it dispatches. \<^verbatim>\<open>generateSummary\<close> does not
  reject and no other statement of the \<^verbatim>\<open>try\<close> block raises, so neither handler is
  reached.\<close>

definition finishInterview :: "Env \<Rightarrow> Candidate \<Rightarrow> Payload \<times> requests" where
  "finishInterview env c =
     (let averageScore = finalScore c;
          summaryResult = generateSummary (apiKey env) (net env) c (roleInfo c)
      in ((spread c)\<lparr> p_interviewStatus := Some completed,
                        p_score := Some (Some averageScore),
                        p_summary := Some (fst summaryResult),
                        p_completedAt := Some (Some (nowISO env)) \<rparr>,
          snd summaryResult))"

subsection \<open>State of the component\<close>

text \<open>
  The local state and the refs of \<^verbatim>\<open>InterviewChat\<close>. \<open>timerRef\<close> is the running
  interval, if any, with what its callback closes over: the \<^verbatim>\<open>submitAnswer\<close> of the
  render that started it, that is, that render's active candidate and answer text.
  \<open>generationTimeoutRef\<close> is the armed 35 second watchdog with the \<^verbatim>\<open>loading\<close> its
  closure saw. \<open>cleanupPending\<close> says that the last run of the first effect returned its
  clean-up function. The banners (\<^verbatim>\<open>error\<close>, \<^verbatim>\<open>notice\<close>) are left out.
\<close>

record Chat =
  timeLeftState :: int
  answer :: string
  isPausedState :: bool
  loading :: bool
  timerRef :: "(Candidate \<times> string) option"
  hasGeneratedQuestions :: bool
  hasFinishedInterview :: bool
  generationTimeoutRef :: "bool option"
  cleanupPending :: bool

text \<open>A promise that has not settled yet, with the candidate its handler closes over.\<close>

datatype Task = Generating Candidate | Finishing Candidate

text \<open>The slice, the component, the promises in flight and the requests sent so far.\<close>

record App =
  store :: Store
  chat :: Chat
  pending :: "Task list"
  sent :: requests

text \<open>The question-generation requests in flight for the session with the given id.\<close>

fun generates :: "string \<Rightarrow> Task \<Rightarrow> bool" where
  "generates i (Generating c) = (cid c = i)"
| "generates i (Finishing c) = False"

definition outstanding :: "string \<Rightarrow> App \<Rightarrow> nat" where
  "outstanding i app = length (filter (generates i) (pending app))"

text \<open>The first render: \<^verbatim>\<open>useState\<close> and \<^verbatim>\<open>useRef\<close> with their initial values.\<close>

definition mount :: "Store \<Rightarrow> App" where
  "mount s =
     \<lparr> store = s,
       chat = \<lparr> timeLeftState = (case activeCandidate s of None \<Rightarrow> 0 | Some c \<Rightarrow> timeLeft c),
                answer = [],
                isPausedState = (case activeCandidate s of None \<Rightarrow> False | Some c \<Rightarrow> isPaused c),
                loading = True, timerRef = None, hasGeneratedQuestions = False,
                hasFinishedInterview = False, generationTimeoutRef = None,
                cleanupPending = False \<rparr>,
       pending = [], sent = [] \<rparr>"

subsection \<open>The effects\<close>

text \<open>
  An effect reads props and state from the render it belongs to (\<open>rv\<close>) and refs from
  the current state, which it updates. The first effect, ``initialize or continue the
  interview'': it clears the watchdog; tests the connection on the first load; returns on
  a completed session; below index 6 it starts the generation of questions unless one is
  in flight, or clamps an index that is out of range, or synchronises the time left; at
  index 6 it starts the aggregation unless one is in flight.
\<close>

definition initEffect :: "Env \<Rightarrow> App \<Rightarrow> App \<Rightarrow> App" where
  "initEffect env rv app =
     (let app0 = app\<lparr>chat := (chat app)\<lparr>generationTimeoutRef := None, cleanupPending := False\<rparr>\<rparr>
      in case activeCandidate (store rv) of
          None \<Rightarrow> app0\<lparr>chat := (chat app0)\<lparr>loading := False\<rparr>\<rparr>
        | Some c \<Rightarrow>
           (let app1 =
                  (if \<not> hasGeneratedQuestions (chat app0) \<and> interviewStatus c = not_started
                   then app0\<lparr>sent := sent app0 @ snd (testConnection (apiKey env) (net env))\<rparr>
                   else app0)
            in if interviewStatus c = completed then app1
               else if currentQuestionIndex c < 6 then
                 (if questions c = [] then
                    (if \<not> hasGeneratedQuestions (chat app1)
                     then app1\<lparr>chat := (chat app1)\<lparr>hasGeneratedQuestions := True,
                                   generationTimeoutRef := Some (loading (chat rv)),
                                   loading := True, cleanupPending := True\<rparr>,
                                pending := pending app1 @ [Generating c]\<rparr>
                     else app1\<lparr>chat := (chat app1)\<lparr>cleanupPending := True\<rparr>\<rparr>)
                  else if currentQuestionIndex c \<ge> length (questions c) then
                    (let safeIndex = length (questions c) - 1;
                         q = questions c ! safeIndex;
                         newTimeLeft = orElse (timeLeft c) (timeLimit q)
                     in app1\<lparr>store :=
                               (if currentQuestionIndex c \<noteq> safeIndex \<or> timeLeft c \<noteq> newTimeLeft
                                then updateCandidate (store app1)
                                       ((spread c)\<lparr>p_currentQuestionIndex := Some safeIndex,
                                                   p_timeLeft := Some newTimeLeft\<rparr>)
                                else store app1),
                             chat := (chat app1)\<lparr>timeLeftState := newTimeLeft\<rparr>\<rparr>)
                  else
                    (let currentQuestion = questions c ! currentQuestionIndex c;
                         newTimeLeft = orElse (timeLeft c) (timeLimit currentQuestion)
                     in app1\<lparr>chat := (chat app1)
                          \<lparr>timeLeftState :=
                             (if timeLeftState (chat rv) \<noteq> newTimeLeft then newTimeLeft
                              else timeLeftState (chat app1)),
                           loading := False, cleanupPending := True\<rparr>\<rparr>))
               else if questions c \<noteq> [] \<and> (score c = None \<or> score c = Some 0) then
                 (if \<not> hasFinishedInterview (chat app1)
                  then app1\<lparr>chat := (chat app1)\<lparr>hasFinishedInterview := True, loading := True,
                                cleanupPending := True\<rparr>,
                             pending := pending app1 @ [Finishing c]\<rparr>
                  else app1\<lparr>chat := (chat app1)\<lparr>cleanupPending := True\<rparr>\<rparr>)
               else app1\<lparr>chat := (chat app1)\<lparr>loading := False, cleanupPending := True\<rparr>\<rparr>))"

text \<open>Its clean-up function stops the interval and the watchdog.\<close>

definition initCleanup :: "App \<Rightarrow> App" where
  "initCleanup app =
     (if cleanupPending (chat app)
      then app\<lparr>chat := (chat app)\<lparr>timerRef := None, generationTimeoutRef := None\<rparr>\<rparr>
      else app)"

text \<open>The second effect, the countdown: it stops the running interval and, unless the
  session is paused, completed, past the last question or without a current question,
  starts a new one.\<close>

definition timerEffect :: "App \<Rightarrow> App \<Rightarrow> App" where
  "timerEffect rv app =
     (let app0 = app\<lparr>chat := (chat app)\<lparr>timerRef := None\<rparr>\<rparr>
      in case activeCandidate (store rv) of
          None \<Rightarrow> app0
        | Some c \<Rightarrow>
            if isPausedState (chat rv) \<or> interviewStatus c = completed \<or> currentQuestionIndex c \<ge> 6
            then app0
            else if currentQuestionIndex c \<ge> length (questions c) then app0
            else
              (let currentQuestion = questions c ! currentQuestionIndex c;
                   currentTime = timeLeftState (chat rv)
               in app0\<lparr>chat := (chat app0)
                    \<lparr>timeLeftState :=
                       (if currentTime \<le> 0
                        then orElse (timeLimit currentQuestion) (getTimeLimit (currentQuestionIndex c))
                        else timeLeftState (chat app0)),
                     timerRef := Some (c, answer (chat rv))\<rparr>\<rparr>))"

definition timerCleanup :: "App \<Rightarrow> App" where
  "timerCleanup app = app\<lparr>chat := (chat app)\<lparr>timerRef := None\<rparr>\<rparr>"

text \<open>The third effect, ``reset flags when candidate changes''.\<close>

definition resetFlags :: "App \<Rightarrow> App" where
  "resetFlags app =
     app\<lparr>chat := (chat app)\<lparr>hasGeneratedQuestions := False, hasFinishedInterview := False,
                            generationTimeoutRef := None\<rparr>\<rparr>"

text \<open>
  One commit of a render: \<open>old\<close> is the state the component was rendered with before,
  \<open>new\<close> the state it is rendered with now. The clean-ups of the effects whose
  dependencies have changed run first, then those effects, in the order of the source.
  The first effect depends on the active candidate, the second on the question index and
  the pause flag, the third on the selected id.
\<close>

definition questionIndex :: "App \<Rightarrow> nat" where
  "questionIndex app =
     (case activeCandidate (store app) of None \<Rightarrow> 0 | Some c \<Rightarrow> currentQuestionIndex c)"

definition commit :: "Env \<Rightarrow> App \<Rightarrow> App \<Rightarrow> App" where
  "commit env old new =
     (let initChanged = (activeCandidate (store old) \<noteq> activeCandidate (store new));
          timerChanged = (questionIndex old \<noteq> questionIndex new \<or>
                          isPausedState (chat old) \<noteq> isPausedState (chat new));
          idChanged = (currentCandidateId (store old) \<noteq> currentCandidateId (store new));
          a1 = (if initChanged then initCleanup new else new);
          a2 = (if timerChanged then timerCleanup a1 else a1);
          a3 = (if initChanged then initEffect env new a2 else a2);
          a4 = (if timerChanged then timerEffect new a3 else a3)
      in if idChanged then resetFlags a4 else a4)"

text \<open>An effect may update the state, which renders the component once more.\<close>

definition rendered :: "Env \<Rightarrow> App \<Rightarrow> App \<Rightarrow> App" where
  "rendered env old new = commit env new (commit env old new)"

text \<open>After the first render every effect runs.\<close>

definition mounted :: "Env \<Rightarrow> Store \<Rightarrow> App" where
  "mounted env s =
     (let m = mount s; a = resetFlags (timerEffect m (initEffect env m m))
      in commit env m a)"

text \<open>Every effect of the mounted component runs once more, clean-ups first, with the
  state as it is. A development build of React does this right after the first render
  (strict mode).\<close>

definition effectsAgain :: "Env \<Rightarrow> App \<Rightarrow> App" where
  "effectsAgain env app =
     resetFlags (timerEffect app (initEffect env app (timerCleanup (initCleanup app))))"

subsection \<open>Events\<close>

text \<open>Typing into the answer field, which is disabled while the session is paused.\<close>

definition typeAnswer :: "string \<Rightarrow> App \<Rightarrow> App" where
  "typeAnswer s app =
     (if isPausedState (chat app) then app else app\<lparr>chat := (chat app)\<lparr>answer := s\<rparr>\<rparr>)"

text \<open>\<^verbatim>\<open>togglePause\<close>, then the render it causes.\<close>

definition togglePause :: "App \<Rightarrow> App" where
  "togglePause app =
     (case activeCandidate (store app) of
        None \<Rightarrow> app
      | Some c \<Rightarrow>
          app\<lparr>chat := (chat app)\<lparr>isPausedState := \<not> isPausedState (chat app)\<rparr>,
              store := updateCandidate (store app)
                ((spread c)\<lparr>p_isPaused := Some (\<not> isPausedState (chat app)),
                            p_timeLeft := Some (timeLeftState (chat app))\<rparr>)\<rparr>)"

definition pauseClicked :: "Env \<Rightarrow> App \<Rightarrow> App" where
  "pauseClicked env app = rendered env app (togglePause app)"

text \<open>What a call of \<^verbatim>\<open>submitAnswer\<close> does to the state once the evaluation is back:
  the dispatch, the cleared answer field and the time of the next question.\<close>

definition submitted :: "Env \<Rightarrow> Candidate \<Rightarrow> string \<Rightarrow> App \<Rightarrow> App" where
  "submitted env c a app =
     (case submitAnswer env c a of
        None \<Rightarrow> app
      | Some r \<Rightarrow>
          app\<lparr>store := updateCandidate (store app) (fst r),
              chat := (chat app)
                \<lparr>answer := [],
                 timeLeftState :=
                   (if currentQuestionIndex c + 1 < length (questions c)
                    then orCurrent (p_timeLeft (fst r)) (timeLeftState (chat app))
                    else timeLeftState (chat app)),
                 loading := False\<rparr>,
              sent := sent app @ snd r\<rparr>)"


text \<open>One tick of the interval. At zero the interval stops and calls the
  \<^verbatim>\<open>submitAnswer\<close> it closes over.\<close>

definition tick :: "Env \<Rightarrow> App \<Rightarrow> App" where
  "tick env app =
     (case timerRef (chat app) of
        None \<Rightarrow> app
      | Some closure \<Rightarrow>
          (let newTime = timeLeftState (chat app) - 1
           in if newTime \<le> 0 then
                (let app1 = app\<lparr>chat := (chat app)\<lparr>timerRef := None, timeLeftState := 0\<rparr>\<rparr>
                 in rendered env app1 (submitted env (fst closure) (snd closure) app1))
              else app\<lparr>chat := (chat app)\<lparr>timeLeftState := newTime\<rparr>\<rparr>))"

text \<open>Several seconds pass.\<close>

fun ticks :: "nat \<Rightarrow> Env \<Rightarrow> App \<Rightarrow> App" where
  "ticks 0 env app = app"
| "ticks (Suc n) env app = ticks n env (tick env app)"

text \<open>The handlers of the generation promise. The batch is what
  \<^verbatim>\<open>generateQuestionsBatch\<close> resolves to for the candidate it was started with.\<close>

definition generationThen :: "Env \<Rightarrow> Candidate \<Rightarrow> App \<Rightarrow> App" where
  "generationThen env c app =
     (let r = generateQuestionsBatch env c;
          batch = fst r;
          app1 = app\<lparr>chat := (chat app)\<lparr>generationTimeoutRef := None,
                                          hasGeneratedQuestions := False\<rparr>,
                      sent := sent app @ snd r\<rparr>
      in if length batch = 0 then app1\<lparr>chat := (chat app1)\<lparr>loading := False\<rparr>\<rparr>
         else
           (let firstQuestionTimeLimit = orElse (timeLimit (hd batch)) (getTimeLimit 0)
            in app1\<lparr>store := updateCandidate (store app1)
                        ((spread c)\<lparr>p_questions := Some batch,
                                    p_interviewStatus := Some in_progress,
                                    p_currentQuestionIndex := Some 0,
                                    p_timeLeft := Some firstQuestionTimeLimit,
                                    p_isPaused := Some False\<rparr>),
                    chat := (chat app1)\<lparr>timeLeftState := firstQuestionTimeLimit,
                                         loading := False\<rparr>\<rparr>))"

definition generationCatch :: "App \<Rightarrow> App" where
  "generationCatch app =
     app\<lparr>chat := (chat app)\<lparr>generationTimeoutRef := None, hasGeneratedQuestions := False,
                            loading := False\<rparr>\<rparr>"

text \<open>The aggregation promise: \<^verbatim>\<open>finishInterview\<close> dispatches, then the flag is reset.\<close>

definition finishThen :: "Env \<Rightarrow> Candidate \<Rightarrow> App \<Rightarrow> App" where
  "finishThen env c app =
     (let r = finishInterview env c
      in app\<lparr>store := updateCandidate (store app) (fst r),
              chat := (chat app)\<lparr>loading := False, hasFinishedInterview := False\<rparr>,
              sent := sent app @ snd r\<rparr>)"

text \<open>A promise in flight settles: it leaves the list, its handler runs, the component
  renders.\<close>

definition settle :: "Env \<Rightarrow> Task \<Rightarrow> App \<Rightarrow> App" where
  "settle env t app =
     (if t \<notin> set (pending app) then app
      else
        (let app1 = app\<lparr>pending := remove1 t (pending app)\<rparr>
         in rendered env app
              (case t of
                 Generating c \<Rightarrow> generationThen env c app1
               | Finishing c \<Rightarrow> finishThen env c app1)))"

text \<open>The watchdog fires 35 seconds after the effect armed it, unless it was cleared.\<close>

definition watchdogFired :: "App \<Rightarrow> App" where
  "watchdogFired app =
     (case generationTimeoutRef (chat app) of
        None \<Rightarrow> app
      | Some sawLoading \<Rightarrow>
          if sawLoading
          then app\<lparr>chat := (chat app)\<lparr>generationTimeoutRef := None,
                                       hasGeneratedQuestions := False, loading := False\<rparr>\<rparr>
          else app\<lparr>chat := (chat app)\<lparr>generationTimeoutRef := None\<rparr>\<rparr>)"

text \<open>Another candidate is selected.\<close>

definition selectCandidate :: "Env \<Rightarrow> string option \<Rightarrow> App \<Rightarrow> App" where
  "selectCandidate env i app =
     rendered env app (app\<lparr>store := setCurrentCandidateId (store app) i\<rparr>)"

section \<open>Example values\<close>

text \<open>An environment without a key and one with a well-formed key; in both every
  request fails.\<close>

definition offline :: Env where
  "offline =
     \<lparr> apiKey = [], net = (\<lambda>model request. Failed), shuffle = (\<lambda>xs. xs),
       expired = (\<lambda>n. False),
       parseReply = (\<lambda>text. \<lparr> e_score = 5, e_feedback = text \<rparr>),
       now = 0, nowISO = ''2025-01-01T00:00:00.000Z'' \<rparr>"

definition unreachable :: Env where
  "unreachable = offline\<lparr> apiKey := ''pplx-0123456789abcdefghijklmnopqrstuvwxyz'' \<rparr>"

text \<open>A candidate who has just submitted the details form, with the skills of a backend
  engineer on the resume, selected in a freshly mounted component.\<close>

definition backend :: Candidate where
  "backend = (newCandidate ''2'' ''Grace'')\<lparr> skills := Some [''Backend Engineer''] \<rparr>"

definition backendStore :: Store where
  "backendStore =
     \<lparr> candidates = [newCandidate ''1'' ''Ada'', backend],
       currentCandidateId = Some ''2'', activeTab = ''interviewee'', viewMode = ''tabs'' \<rparr>"




text \<open>An answer of 120 characters that mentions an api and a database.\<close>

definition answer120 :: string where
  "answer120 = ''The api reads the database.'' @ replicate 93 (CHR ''x'')"



text \<open>A provider that answers every request with one numbered question, and a key of
  the right form.\<close>

definition oneQuestion :: Env where
  "oneQuestion = unreachable
     \<lparr> net := (\<lambda>model request. Response 200 [''1. What is a closure in JavaScript?'']) \<rparr>"




section \<open>Facts about the slice\<close>

lemma findIndex_None: "findIndex P xs = None \<longleftrightarrow> (\<forall>x \<in> set xs. \<not> P x)"
  by (induction xs) auto

lemma findIndex_Some:
  "findIndex P xs = Some i \<longleftrightarrow> i < length xs \<and> P (xs ! i) \<and> (\<forall>j < i. \<not> P (xs ! j))"
proof (induction xs arbitrary: i)
  case Nil
  then show ?case by simp
next
  case (Cons x xs)
  show ?case
  proof (cases "P x")
    case True
    then show ?thesis by (cases i) auto
  next
    case False
    show ?thesis
    proof (cases i)
      case 0
      with False show ?thesis by auto
    next
      case (Suc k)
      have "(\<forall>j < Suc k. \<not> P ((x # xs) ! j)) \<longleftrightarrow> (\<forall>j < k. \<not> P (xs ! j))"
        using False by (auto simp: less_Suc_eq_0_disj)
      with Suc False Cons.IH [of k] show ?thesis by auto
    qed
  qed
qed

text \<open>
  Claim C10. Dispatching \<^verbatim>\<open>updateCandidate\<close> with a payload whose id matches no stored
  candidate leaves the whole slice state unchanged. When the id matches, the first
  candidate with that id is replaced by the merge, the list keeps its length, every
  other entry is the one it was, and \<^verbatim>\<open>currentCandidateId\<close>, \<^verbatim>\<open>activeTab\<close> and
  \<^verbatim>\<open>viewMode\<close> are unchanged.
\<close>

theorem updateCandidate_frame:
  "((\<forall>c \<in> set (candidates state). cid c \<noteq> p_id incoming) \<longrightarrow>
      updateCandidate state incoming = state) \<and>
   (i < length (candidates state) \<and> cid (candidates state ! i) = p_id incoming \<and>
    (\<forall>j < i. cid (candidates state ! j) \<noteq> p_id incoming) \<longrightarrow>
      length (candidates (updateCandidate state incoming)) = length (candidates state) \<and>
      candidates (updateCandidate state incoming) ! i =
        mergeCandidate (candidates state ! i) incoming \<and>
      (\<forall>j < length (candidates state). j \<noteq> i \<longrightarrow>
         candidates (updateCandidate state incoming) ! j = candidates state ! j) \<and>
      currentCandidateId (updateCandidate state incoming) = currentCandidateId state \<and>
      activeTab (updateCandidate state incoming) = activeTab state \<and>
      viewMode (updateCandidate state incoming) = viewMode state)"
proof (rule conjI; rule impI)
  assume "\<forall>c \<in> set (candidates state). cid c \<noteq> p_id incoming"
  then have "findIndex (\<lambda>c. cid c = p_id incoming) (candidates state) = None"
    by (simp add: findIndex_None)
  then show "updateCandidate state incoming = state"
    by (simp add: updateCandidate_def)
next
  assume "i < length (candidates state) \<and> cid (candidates state ! i) = p_id incoming \<and>
    (\<forall>j < i. cid (candidates state ! j) \<noteq> p_id incoming)"
  then have found: "findIndex (\<lambda>c. cid c = p_id incoming) (candidates state) = Some i"
    and i: "i < length (candidates state)"
    by (simp_all add: findIndex_Some)
  have upd: "updateCandidate state incoming =
      state\<lparr>candidates := (candidates state)[i := mergeCandidate (candidates state ! i) incoming]\<rparr>"
    using found by (simp add: updateCandidate_def)
  show "length (candidates (updateCandidate state incoming)) = length (candidates state) \<and>
      candidates (updateCandidate state incoming) ! i =
        mergeCandidate (candidates state ! i) incoming \<and>
      (\<forall>j < length (candidates state). j \<noteq> i \<longrightarrow>
         candidates (updateCandidate state incoming) ! j = candidates state ! j) \<and>
      currentCandidateId (updateCandidate state incoming) = currentCandidateId state \<and>
      activeTab (updateCandidate state incoming) = activeTab state \<and>
      viewMode (updateCandidate state incoming) = viewMode state"
    using i by (simp add: upd)
qed

theorem updateCandidate_frame_witness:
  "updateCandidate twoCandidates (idOnly ''3'') = twoCandidates \<and>
   candidates (updateCandidate twoCandidates ((idOnly ''2'')\<lparr>p_timeLeft := Some 20\<rparr>)) ! 0 =
     newCandidate ''1'' ''Ada'' \<and>
   candidates (updateCandidate twoCandidates ((idOnly ''2'')\<lparr>p_timeLeft := Some 20\<rparr>)) ! 1 =
     (newCandidate ''2'' ''Grace'')\<lparr>timeLeft := 20\<rparr> \<and>
   currentCandidateId (updateCandidate twoCandidates ((idOnly ''2'')\<lparr>p_timeLeft := Some 20\<rparr>)) =
     Some ''2''"
  using updateCandidate_frame [of twoCandidates "idOnly ''3''" 0]
    updateCandidate_frame [of twoCandidates "(idOnly ''2'')\<lparr>p_timeLeft := Some 20\<rparr>" 1]
  by (simp add: twoCandidates_def idOnly_def newCandidate_def mergeCandidate_def
      orCurrent_def less_Suc_eq_0_disj)

section \<open>The active candidate after a dispatch\<close>

lemma find_findIndex: "find P xs = map_option (\<lambda>i. xs ! i) (findIndex P xs)"
  by (induction xs) (auto simp: option.map_comp comp_def)

lemma findIndex_update:
  "findIndex P xs = Some i \<Longrightarrow> P y \<Longrightarrow> findIndex P (xs[i := y]) = Some i"
  by (simp add: findIndex_Some)

lemma cid_mergeCandidate: "cid (mergeCandidate c p) = p_id p"
  by (simp add: mergeCandidate_def)

text \<open>A payload built from the active candidate replaces the active candidate.\<close>

lemma active_after_update:
  assumes "activeCandidate state = Some c" and "p_id p = cid c"
  shows "activeCandidate (updateCandidate state p) = Some (mergeCandidate c p)"
proof -
  from assms(1) obtain k where k: "currentCandidateId state = Some k"
    and f: "find (\<lambda>c. cid c = k) (candidates state) = Some c"
    by (auto simp: activeCandidate_def split: option.splits)
  from f have ck: "cid c = k" by (auto simp: find_Some_iff)
  from f obtain i where i: "findIndex (\<lambda>c. cid c = k) (candidates state) = Some i"
    and ci: "candidates state ! i = c"
    by (auto simp: find_findIndex)
  have pk: "p_id p = k" using assms(2) ck by simp
  have "findIndex (\<lambda>c. cid c = k) ((candidates state)[i := mergeCandidate c p]) = Some i"
    using i by (rule findIndex_update) (simp add: cid_mergeCandidate pk)
  moreover have "i < length (candidates state)" using i by (simp add: findIndex_Some)
  ultimately show ?thesis
    using i ci k pk by (simp add: activeCandidate_def updateCandidate_def find_findIndex)
qed

section \<open>The final score\<close>







section \<open>The basic evaluation\<close>

lemma evaluateModels_exhausted:
  "(\<forall>m \<in> set ms. \<not> usable (nw m (AskEvaluation q a pos))) \<Longrightarrow>
   fst (evaluateModels nw parse q a pos ms) = basicEvaluation a"
  by (induction ms) (auto simp: Let_def split: prod.splits)

lemma distinct_keywords: "distinct technicalKeywords"
  by (simp add: technicalKeywords_def)

lemma found_card:
  "length (filter P technicalKeywords) = card {k \<in> set technicalKeywords. P k}"
proof -
  have "{k \<in> set technicalKeywords. P k} = {x. P x} \<inter> set technicalKeywords" by auto
  then show ?thesis using distinct_keywords by (simp add: distinct_length_filter)
qed

lemma basic_score:
  "e_score (basicEvaluation a) =
     of_int (max 0 (min 10 (3 + (if length a > 50 then 1 else 0) + (if length a > 100 then 1 else 0) +
       int (min (card {k \<in> set technicalKeywords. includes_str (toLowerCase a) k}) 3))))"
  unfolding found_card [symmetric]
  by (simp add: basicEvaluation_def Let_def min_def)

lemma basic_feedback:
  "e_feedback (basicEvaluation a) =
     (let matched = filter (\<lambda>k. includes_str (toLowerCase a) k) technicalKeywords
      in ''Basic evaluation: Answer shows '' @
         (if e_score (basicEvaluation a) \<ge> 7 then ''good''
          else if e_score (basicEvaluation a) \<ge> 5 then ''moderate'' else ''limited'') @
         '' technical understanding. '' @
         (if matched = [] then []
          else ''Mentioned relevant concepts: '' @ join '', '' (take 3 matched) @ ''.'') @
         '' Consider providing more detailed explanations.'')"
proof -
  have n: "(of_nat k :: rat) \<ge> 7 \<longleftrightarrow> k \<ge> 7" "(of_nat k :: rat) \<ge> 5 \<longleftrightarrow> k \<ge> 5" for k :: nat
    by linarith+
  show ?thesis
    by (simp add: basicEvaluation_def Let_def n)
qed

text \<open>
  Claim C2, as amended. When the configured key passes \<^verbatim>\<open>checkApiKey\<close> and the request
  to every model fails, \<^verbatim>\<open>evaluateAnswer\<close> returns the basic evaluation: 3, plus 1 for an
  answer longer than 50, plus 1 for one longer than 100, plus the number of distinct
  technical keywords found in the lower-cased answer, at most 3, the sum clamped to 0..10;
  its feedback is the template, which names the first three keywords found. When the key
  does not pass the check, no model is asked and the result is the score 5 with a fixed
  feedback.
\<close>

theorem evaluateAnswer_exhausted:
  "(checkApiKey key \<and> (\<forall>m \<in> set models. \<not> usable (nw m (AskEvaluation q a pos))) \<longrightarrow>
      fst (evaluateAnswer key nw parse q a pos) = basicEvaluation a) \<and>
   (\<not> checkApiKey key \<longrightarrow>
      evaluateAnswer key nw parse q a pos =
        (\<lparr> e_score = 5, e_feedback = ''Using default evaluation due to missing API key.'' \<rparr>, [])) \<and>
   e_score (basicEvaluation a) =
     of_int (max 0 (min 10 (3 + (if length a > 50 then 1 else 0) + (if length a > 100 then 1 else 0) +
       int (min (card {k \<in> set technicalKeywords. includes_str (toLowerCase a) k}) 3)))) \<and>
   e_feedback (basicEvaluation a) =
     (let matched = filter (\<lambda>k. includes_str (toLowerCase a) k) technicalKeywords
      in ''Basic evaluation: Answer shows '' @
         (if e_score (basicEvaluation a) \<ge> 7 then ''good''
          else if e_score (basicEvaluation a) \<ge> 5 then ''moderate'' else ''limited'') @
         '' technical understanding. '' @
         (if matched = [] then []
          else ''Mentioned relevant concepts: '' @ join '', '' (take 3 matched) @ ''.'') @
         '' Consider providing more detailed explanations.'')"
proof (intro conjI impI)
  assume "checkApiKey key \<and> (\<forall>m \<in> set models. \<not> usable (nw m (AskEvaluation q a pos)))"
  then show "fst (evaluateAnswer key nw parse q a pos) = basicEvaluation a"
    by (simp add: evaluateAnswer_def evaluateModels_exhausted)
next
  assume "\<not> checkApiKey key"
  then show "evaluateAnswer key nw parse q a pos =
        (\<lparr> e_score = 5, e_feedback = ''Using default evaluation due to missing API key.'' \<rparr>, [])"
    by (simp add: evaluateAnswer_def)
next
  show "e_score (basicEvaluation a) =
     of_int (max 0 (min 10 (3 + (if length a > 50 then 1 else 0) + (if length a > 100 then 1 else 0) +
       int (min (card {k \<in> set technicalKeywords. includes_str (toLowerCase a) k}) 3))))"
    by (rule basic_score)
next
  show "e_feedback (basicEvaluation a) =
     (let matched = filter (\<lambda>k. includes_str (toLowerCase a) k) technicalKeywords
      in ''Basic evaluation: Answer shows '' @
         (if e_score (basicEvaluation a) \<ge> 7 then ''good''
          else if e_score (basicEvaluation a) \<ge> 5 then ''moderate'' else ''limited'') @
         '' technical understanding. '' @
         (if matched = [] then []
          else ''Mentioned relevant concepts: '' @ join '', '' (take 3 matched) @ ''.'') @
         '' Consider providing more detailed explanations.'')"
    by (rule basic_feedback)
qed

lemma key_ok: "checkApiKey (apiKey unreachable)"
  by code_simp

lemma key_missing: "\<not> checkApiKey (apiKey offline)"
  by (simp add: offline_def checkApiKey_def)

lemma answer120_basic:
  "basicEvaluation answer120 = \<lparr> e_score = 7, e_feedback =
     ''Basic evaluation: Answer shows good technical understanding. Mentioned relevant concepts: api, database. Consider providing more detailed explanations.'' \<rparr>"
  by code_simp

lemma answer120_matched:
  "filter (\<lambda>k. includes_str (toLowerCase answer120) k) technicalKeywords = [''api'', ''database'']"
  by code_simp

lemma answer120_length: "length answer120 = 120"
  by (simp add: answer120_def)

lemma net_fails: "\<not> usable (net unreachable m r)" "\<not> usable (net offline m r)"
  by (simp_all add: unreachable_def offline_def)

text \<open>An answer of length 120 that mentions exactly \<open>api\<close> and \<open>database\<close> scores 7
  with a key, and 5 without one.\<close>

theorem evaluateAnswer_exhausted_witness:
  "length answer120 = 120 \<and>
   filter (\<lambda>k. includes_str (toLowerCase answer120) k) technicalKeywords = [''api'', ''database''] \<and>
   e_score (fst (evaluateAnswer (apiKey unreachable) (net unreachable) (parseReply unreachable)
     ''What is an API?'' answer120 ''Backend Engineer'')) = 7 \<and>
   e_score (fst (evaluateAnswer (apiKey offline) (net offline) (parseReply offline)
     ''What is an API?'' answer120 ''Backend Engineer'')) = 5"
  using evaluateAnswer_exhausted [of "apiKey unreachable" "net unreachable" "''What is an API?''"
      answer120 "''Backend Engineer''" "parseReply unreachable"]
    evaluateAnswer_exhausted [of "apiKey offline" "net offline" "''What is an API?''"
      answer120 "''Backend Engineer''" "parseReply offline"]
  by (simp add: key_ok key_missing net_fails answer120_basic answer120_matched answer120_length)

text \<open>Claim C2 as stated fails without a key: every request would fail, the heuristic
  score of the answer is 7, and the answer is scored 5.\<close>

theorem evaluateAnswer_no_key_counterexample:
  "list_all (\<lambda>m. \<not> usable (net offline m (AskEvaluation ''What is an API?'' answer120 ''Backend Engineer'')))
     models \<and>
   length answer120 = 120 \<and>
   filter (\<lambda>k. includes_str (toLowerCase answer120) k) technicalKeywords = [''api'', ''database''] \<and>
   e_score (basicEvaluation answer120) = 7 \<and>
   e_score (fst (evaluateAnswer (apiKey offline) (net offline) (parseReply offline)
     ''What is an API?'' answer120 ''Backend Engineer'')) = 5"
  by (simp add: list_all_iff net_fails answer120_length answer120_matched answer120_basic
      evaluateAnswer_def key_missing)

section \<open>The summary\<close>













section \<open>Starting an interview\<close>

lemma available_checks: "isApiKeyAvailable key \<Longrightarrow> checkApiKey key"
  by (auto simp: isApiKeyAvailable_def checkApiKey_def Let_def split: if_splits)

lemma no_key_batch:
  "\<not> isApiKeyAvailable (apiKey env) \<Longrightarrow> generateQuestionsBatch env c = (defaultBatch (now env), [])"
  by (simp add: generateQuestionsBatch_def)

lemma no_key_test: "\<not> checkApiKey key \<Longrightarrow> testConnection key nw = (False, [])"
  by (simp add: testConnection_def)

lemma defaultBatch_items: "map itemOf (defaultBatch t) = defaultQuestions"
  by (simp add: defaultBatch_def defaultQuestions_def itemOf_def orElse_def)

lemma defaultBatch_length: "length (defaultBatch t) = 6"
  by (simp add: defaultBatch_def defaultQuestions_def)

lemma defaultBatch_nonempty: "defaultBatch t \<noteq> []"
  by (simp add: defaultBatch_def defaultQuestions_def)

lemma defaultBatch_first: "timeLimit (hd (defaultBatch t)) = 20"
  by (simp add: defaultBatch_def defaultQuestions_def orElse_def)

lemma defaultBatch_difficulties:
  "map difficulty (defaultBatch t) = [''Easy'', ''Easy'', ''Medium'', ''Medium'', ''Hard'', ''Hard'']"
  by (simp add: defaultBatch_def defaultQuestions_def)

text \<open>
  Claim C4. Let the configured key fail \<^verbatim>\<open>checkApiKey\<close> (it is empty, the string
  \<^verbatim>\<open>undefined\<close>, blank, or does not start with \<^verbatim>\<open>pplx-\<close>), and let the active session be
  not started, without questions, with no generation in flight. Then the first effect
  starts one generation and sends nothing; \<^verbatim>\<open>generateQuestionsBatch\<close> sends nothing and
  resolves to the six questions of the bank, each with an id added and otherwise
  unchanged; and its handler stores them with the status \<^verbatim>\<open>in_progress\<close>, the question
  index 0, 20 seconds left and the pause flag cleared.
\<close>

theorem no_credential_start:
  assumes "\<not> checkApiKey (apiKey env)"
    and "activeCandidate (store app) = Some c"
    and "interviewStatus c = not_started" and "questions c = []"
    and "currentQuestionIndex c < 6" and "\<not> hasGeneratedQuestions (chat app)"
  shows "pending (initEffect env app app) = pending app @ [Generating c] \<and>
     sent (initEffect env app app) = sent app \<and>
     generateQuestionsBatch env c = (defaultBatch (now env), []) \<and>
     map itemOf (defaultBatch (now env)) = defaultQuestions \<and>
     sent (generationThen env c (initEffect env app app)) = sent app \<and>
     (\<exists>c'. activeCandidate (store (generationThen env c (initEffect env app app))) = Some c' \<and>
        map itemOf (questions c') = defaultQuestions \<and> length (questions c') = 6 \<and>
        interviewStatus c' = in_progress \<and> currentQuestionIndex c' = 0 \<and>
        timeLeft c' = 20 \<and> isPaused c' = False)"
proof -
  let ?app1 = "initEffect env app app"
  have nk: "\<not> isApiKeyAvailable (apiKey env)"
    using assms(1) available_checks by blast
  have batch: "generateQuestionsBatch env c = (defaultBatch (now env), [])"
    using nk by (rule no_key_batch)
  have e: "?app1 = app\<lparr>chat := (chat app)\<lparr>generationTimeoutRef := Some (loading (chat app)),
        cleanupPending := True, hasGeneratedQuestions := True, loading := True\<rparr>,
      pending := pending app @ [Generating c]\<rparr>"
    using assms by (simp add: initEffect_def Let_def no_key_test)
  have p: "pending ?app1 = pending app @ [Generating c]" and s: "sent ?app1 = sent app"
    and st: "store ?app1 = store app"
    by (simp_all add: e)
  let ?pl = "(spread c)\<lparr>p_questions := Some (defaultBatch (now env)),
      p_interviewStatus := Some in_progress, p_currentQuestionIndex := Some 0,
      p_timeLeft := Some 20, p_isPaused := Some False\<rparr>"
  have g: "store (generationThen env c ?app1) = updateCandidate (store app) ?pl"
    and gs: "sent (generationThen env c ?app1) = sent app"
    by (simp_all add: generationThen_def Let_def batch defaultBatch_nonempty defaultBatch_first
        orElse_def st s)
  have a: "activeCandidate (updateCandidate (store app) ?pl) = Some (mergeCandidate c ?pl)"
    using assms(2) by (rule active_after_update) (simp add: spread_def)
  show ?thesis
    apply (intro conjI exI [of _ "mergeCandidate c ?pl"])
    subgoal by (rule p)
    subgoal by (rule s)
    subgoal by (rule batch)
    subgoal by (rule defaultBatch_items)
    subgoal by (rule gs)
    subgoal by (simp add: g a)
    subgoal by (simp add: mergeCandidate_def orCurrent_def defaultBatch_items)
    subgoal by (simp add: mergeCandidate_def orCurrent_def defaultBatch_length)
    subgoal by (simp add: mergeCandidate_def orCurrent_def)
    subgoal by (simp add: mergeCandidate_def orCurrent_def)
    subgoal by (simp add: mergeCandidate_def orCurrent_def)
    subgoal by (simp add: mergeCandidate_def orCurrent_def)
    done
qed

lemma backend_active: "activeCandidate (store (mount backendStore)) = Some backend"
  by (simp add: mount_def activeCandidate_def backendStore_def backend_def newCandidate_def)

text \<open>A backend engineer without a key.\<close>

theorem no_credential_start_witness:
  "roleInfo backend = ''Backend Engineer'' \<and>
   pending (initEffect offline (mount backendStore) (mount backendStore)) = [Generating backend] \<and>
   sent (generationThen offline backend
     (initEffect offline (mount backendStore) (mount backendStore))) = [] \<and>
   (\<exists>c'. activeCandidate (store (generationThen offline backend
        (initEffect offline (mount backendStore) (mount backendStore)))) = Some c' \<and>
      map itemOf (questions c') = defaultQuestions \<and>
      interviewStatus c' = in_progress \<and> currentQuestionIndex c' = 0 \<and> timeLeft c' = 20)"
proof -
  have h: "interviewStatus backend = not_started" "questions backend = []"
    "currentQuestionIndex backend < 6" "\<not> hasGeneratedQuestions (chat (mount backendStore))"
    by (simp_all add: backend_def newCandidate_def mount_def)
  have r: "roleInfo backend = ''Backend Engineer''"
    by (simp add: roleInfo_def backend_def)
  have m: "pending (mount backendStore) = []" "sent (mount backendStore) = []"
    by (simp_all add: mount_def)
  show ?thesis
    using no_credential_start [OF key_missing backend_active h]
    by (auto simp add: r m)
qed

section \<open>A completed session\<close>

lemma cleanup_frame [simp]:
  "store (initCleanup app) = store app" "pending (initCleanup app) = pending app"
  "sent (initCleanup app) = sent app"
  "store (timerCleanup app) = store app" "pending (timerCleanup app) = pending app"
  "sent (timerCleanup app) = sent app"
  "store (resetFlags app) = store app" "pending (resetFlags app) = pending app"
  "sent (resetFlags app) = sent app"
  by (simp_all add: initCleanup_def timerCleanup_def resetFlags_def)

lemma timerEffect_frame [simp]:
  "store (timerEffect rv app) = store app" "pending (timerEffect rv app) = pending app"
  "sent (timerEffect rv app) = sent app"
  by (simp_all add: timerEffect_def Let_def split: option.splits)






section \<open>Answers and the question index\<close>

lemma submitAnswer_payload:
  assumes "currentQuestionIndex c < 6" and "currentQuestionIndex c < length (questions c)"
  shows "\<exists>r x. submitAnswer env c a = Some r \<and> p_id (fst r) = cid c \<and>
     p_answers (fst r) = Some (answers c @ [x]) \<and>
     answerText x = (if a = [] then ''No answer provided (time ran out)'' else a) \<and>
     p_currentQuestionIndex (fst r) = Some (currentQuestionIndex c + 1)"
proof -
  have "questions c \<noteq> []" using assms(2) by auto
  then show ?thesis
    using assms by (simp add: submitAnswer_def Let_def spread_def)
qed

lemma submitted_store:
  assumes "activeCandidate (store app) = Some c"
    and "currentQuestionIndex c < 6" and "currentQuestionIndex c < length (questions c)"
  shows "\<exists>x c'. activeCandidate (store (submitted env c a app)) = Some c' \<and>
     answers c' = answers c @ [x] \<and>
     answerText x = (if a = [] then ''No answer provided (time ran out)'' else a) \<and>
     currentQuestionIndex c' = currentQuestionIndex c + 1"
proof -
  obtain r x where r: "submitAnswer env c a = Some r" "p_id (fst r) = cid c"
    "p_answers (fst r) = Some (answers c @ [x])"
    "answerText x = (if a = [] then ''No answer provided (time ran out)'' else a)"
    "p_currentQuestionIndex (fst r) = Some (currentQuestionIndex c + 1)"
    using submitAnswer_payload [OF assms(2,3)] by blast
  have s: "store (submitted env c a app) = updateCandidate (store app) (fst r)"
    by (simp add: submitted_def r(1))
  have "activeCandidate (updateCandidate (store app) (fst r)) = Some (mergeCandidate c (fst r))"
    using assms(1) r(2) by (rule active_after_update)
  then show ?thesis
    using r by (auto simp: s mergeCandidate_def orCurrent_def)
qed










section \<open>The size of a generated batch\<close>

lemma generatedBatch_length: "length (generatedBatch t qs) = length qs"
  by (simp add: generatedBatch_def)

lemma askModels_length: "length (fst (askModels nw sh pos d n ms)) \<le> n"
  by (induction ms) (auto simp: Let_def split: prod.splits)

lemma generateQuestions_length: "length (fst (generateQuestions key nw sh pos d n)) \<le> n"
  by (simp add: generateQuestions_def askModels_length)

text \<open>A batch is never empty and never longer than six, and nothing in between is
  excluded.\<close>

lemma generateQuestionsBatch_length:
  "1 \<le> length (fst (generateQuestionsBatch env c)) \<and> length (fst (generateQuestionsBatch env c)) \<le> 6"
proof -
  define e where "e = fst (generateQuestions (apiKey env) (net env) (shuffle env) (roleInfo c) ''easy'' 2)"
  define m where "m = fst (generateQuestions (apiKey env) (net env) (shuffle env) (roleInfo c) ''medium'' 2)"
  define h where "h = fst (generateQuestions (apiKey env) (net env) (shuffle env) (roleInfo c) ''hard'' 2)"
  have l: "length e \<le> 2" "length m \<le> 2" "length h \<le> 2"
    unfolding e_def m_def h_def by (rule generateQuestions_length)+
  have d: "1 \<le> length (defaultBatch t) \<and> length (defaultBatch t) \<le> 6" for t
    by (simp add: defaultBatch_length)
  have g: "1 \<le> length (if length (e @ m @ h) = 0 then defaultBatch t else generatedBatch t (e @ m @ h)) \<and>
      length (if length (e @ m @ h) = 0 then defaultBatch t else generatedBatch t (e @ m @ h)) \<le> 6" for t
  proof (cases "length (e @ m @ h) = 0")
    case True
    then show ?thesis using d by simp
  next
    case False
    then have "1 \<le> length (e @ m @ h)" by linarith
    moreover have "length (e @ m @ h) \<le> 6" using l by simp
    ultimately show ?thesis using False by (simp only: generatedBatch_length if_False)
  qed
  have "fst (generateQuestionsBatch env c) =
      (if isApiKeyAvailable (apiKey env) \<and> fst (testConnection (apiKey env) (net env)) \<and>
          \<not> expired env 0 \<and> \<not> expired env 1 \<and> \<not> expired env 2
       then (if length (e @ m @ h) = 0 then defaultBatch (now env)
             else generatedBatch (now env) (e @ m @ h))
       else defaultBatch (now env))"
    unfolding generateQuestionsBatch_def Let_def e_def m_def h_def by simp
  then show ?thesis
    using d [of "now env"] g [of "now env"] by (simp only: split: if_split) blast
qed

text \<open>
  Claim C3, evaluated where it fails. The provider answers each request for two
  questions with the single line \<^verbatim>\<open>1. What is a closure in JavaScript?\<close>.
  \<^verbatim>\<open>generateQuestions\<close> accepts the reply and returns one question;
  \<^verbatim>\<open>generateQuestionsBatch\<close> returns three questions, one per difficulty, and the
  session goes in progress with three questions.
\<close>

theorem partial_batch_accepted:
  "fst (generateQuestions (apiKey oneQuestion) (net oneQuestion) (shuffle oneQuestion)
      ''Backend Engineer'' ''easy'' 2) = [item ''easy'' ''What is a closure in JavaScript?''] \<and>
   map difficulty (fst (generateQuestionsBatch oneQuestion backend)) = [''easy'', ''medium'', ''hard''] \<and>
   map_option (\<lambda>c. (interviewStatus c, length (questions c)))
     (activeCandidate (store (settle oneQuestion (Generating backend) (mounted oneQuestion backendStore))))
     = Some (in_progress, 3)"
  by code_simp

section \<open>The countdown\<close>

text \<open>
  Claim C5, evaluated where it fails. On the first question of a fresh session the
  candidate types \<^verbatim>\<open>abc\<close>, pauses, resumes, deletes the text and lets the time run out.
  One second before the end the answer field is empty and nothing is stored; at zero the
  interval calls the \<^verbatim>\<open>submitAnswer\<close> of the render that started it, at the resume, and
  the answer stored is \<^verbatim>\<open>abc\<close>, not the text that stands for no answer.
\<close>

theorem stale_answer_submitted:
  "(let e = offline;
        a0 = settle e (Generating backend) (mounted e backendStore);
        a1 = typeAnswer ''abc'' a0;
        a2 = pauseClicked e a1;
        a3 = pauseClicked e a2;
        a4 = typeAnswer [] a3;
        a5 = ticks 19 e a4;
        a6 = tick e a5
    in (timeLeftState (chat a5), answer (chat a5),
        map_option (\<lambda>c. (map answerText (answers c), currentQuestionIndex c))
          (activeCandidate (store a5)),
        map_option (\<lambda>c. (map answerText (answers c), currentQuestionIndex c))
          (activeCandidate (store a6))))
   = (1, [], Some ([], 0), Some ([''abc''], 1))"
  by code_simp

text \<open>What the interval submits is the text its closure holds: when that text is empty,
  the stored answer is the text that stands for no answer, and the index advances.\<close>

lemma closure_text_submitted:
  assumes "activeCandidate (store app) = Some c"
    and "currentQuestionIndex c < 6" and "currentQuestionIndex c < length (questions c)"
  shows "\<exists>x c'. activeCandidate (store (submitted env c [] app)) = Some c' \<and>
     answers c' = answers c @ [x] \<and> answerText x = ''No answer provided (time ran out)'' \<and>
     currentQuestionIndex c' = currentQuestionIndex c + 1"
  using submitted_store [OF assms, of env "[]"] by simp

section \<open>The generation guard\<close>

text \<open>While the flag is set a run of the first effect starts no generation, and both
  handlers of the promise clear the flag.\<close>

lemma guard_blocks:
  assumes "hasGeneratedQuestions (chat app)"
  shows "outstanding i (initEffect env rv app) = outstanding i app \<and>
     hasGeneratedQuestions (chat (initEffect env rv app))"
  using assms by (simp add: initEffect_def Let_def outstanding_def split: option.splits)

lemma guard_released:
  "\<not> hasGeneratedQuestions (chat (generationThen env c app))"
  "\<not> hasGeneratedQuestions (chat (generationCatch app))"
  by (simp_all add: generationThen_def generationCatch_def Let_def)

text \<open>
  Claim C8, evaluated where it fails. The component mounts on a session that is not
  started, with a provider that does not answer. The first effect sets the flag and
  starts the generation; the third effect, which resets the flags, runs in the same
  commit, so the flag is clear while the request is in flight. When the effects run
  again before the request settles, a second generation starts for the same session.
\<close>

theorem guard_released_on_mount:
  "(let e = unreachable;
        a0 = mounted e backendStore;
        a1 = effectsAgain e a0
    in (hasGeneratedQuestions (chat a0), outstanding ''2'' a0, outstanding ''2'' a1))
   = (False, 1, 2)"
  by code_simp

end
